theory Spec2Isabelle
  imports Main
begin

section \<open>The local Playwright browser: configuration and session object\<close>

text \<open>
  Embedding of \<^verbatim>\<open>src/magentic_ui/tools/playwright/browser/local_playwright_browser.py\<close>.
  The class keeps five configuration fields and three optional handles; its
  \<^verbatim>\<open>_start\<close> attaches to a running Chrome over CDP and its \<^verbatim>\<open>_close\<close> stops the
  Playwright driver only. The Playwright library is outside the repository: every call
  into it is recorded in a call log, and what the call returns (a handle, or a raised
  exception) is read from an environment that is a parameter of the model.
\<close>

subsection \<open>Configuration (class LocalPlaywrightBrowserConfig)\<close>

record LocalPlaywrightBrowserConfig =
  headless :: bool
  browser_channel :: "string option"
  enable_downloads :: bool
  persistent_context :: bool
  browser_data_dir :: "string option"

text \<open>
  \<^verbatim>\<open>return self.persistent_context and self.browser_data_dir is not None\<close>
\<close>

definition requires_persistent_context :: "LocalPlaywrightBrowserConfig \<Rightarrow> bool" where
  "requires_persistent_context self =
     (if persistent_context self then browser_data_dir self \<noteq> None else False)"

subsection \<open>Handles of the Playwright library, exceptions, and the calls into the library\<close>

datatype Playwright = Playwright nat
datatype Browser = Browser nat
datatype BrowserContext = BrowserContext nat

text \<open>
  The only exception the file constructs itself is \<^verbatim>\<open>RuntimeError\<close>; everything else
  that can be raised comes out of the library.
\<close>

datatype exn = RuntimeError string | PlaywrightError string

fun exn_str :: "exn \<Rightarrow> string" where
  "exn_str (RuntimeError m) = m"
| "exn_str (PlaywrightError m) = m"

text \<open>
  The operations of the library that touch the outside world. \<open>BrowserClose\<close> and
  \<open>ContextClose\<close> are \<^verbatim>\<open>Browser.close()\<close> and \<^verbatim>\<open>BrowserContext.close()\<close>: the operations
  that would end the attached browser or its window.
\<close>

datatype call =
    AsyncPlaywrightStart
  | ConnectOverCdp Playwright string
  | Contexts Browser
  | NewContext Browser
  | PlaywrightStop Playwright
  | BrowserClose Browser
  | ContextClose BrowserContext
  | Print string

record env =
  async_playwright_start :: "exn + Playwright"
  connect_over_cdp :: "Playwright \<Rightarrow> string \<Rightarrow> exn + Browser"
  contexts :: "Browser \<Rightarrow> BrowserContext list"
  new_context :: "Browser \<Rightarrow> exn + BrowserContext"
  playwright_stop :: "Playwright \<Rightarrow> exn option"

subsection \<open>The session object (class LocalPlaywrightBrowser)\<close>

record LocalPlaywrightBrowser =
  self_headless :: bool
  self_browser_channel :: "string option"
  self_enable_downloads :: bool
  self_persistent_context :: bool
  self_browser_data_dir :: "string option"
  self_playwright :: "Playwright option"
  self_browser :: "Browser option"
  self_context :: "BrowserContext option"

text \<open>
  What a method call leaves behind: the object after the call, the library calls it made
  in order, and the exception it raised (\<open>None\<close> when it returned normally).
\<close>

record outcome =
  self_after :: LocalPlaywrightBrowser
  calls :: "call list"
  raised :: "exn option"

text \<open>
  \<^verbatim>\<open>__init__\<close>: stores the five arguments and sets the three handles to \<^verbatim>\<open>None\<close>. It has
  no \<^verbatim>\<open>raise\<close>; the result type keeps an error side so that "construction fails" can be
  stated. The base class constructor it calls first is outside this file and is taken to
  return normally.
\<close>

definition dunder_init ::
  "bool \<Rightarrow> string option \<Rightarrow> bool \<Rightarrow> bool \<Rightarrow> string option \<Rightarrow> exn + LocalPlaywrightBrowser" where
  "dunder_init headless' browser_channel' enable_downloads' persistent_context' browser_data_dir' =
     Inr \<lparr> self_headless = headless',
           self_browser_channel = browser_channel',
           self_enable_downloads = enable_downloads',
           self_persistent_context = persistent_context',
           self_browser_data_dir = browser_data_dir',
           self_playwright = None,
           self_browser = None,
           self_context = None \<rparr>"

definition cdp_endpoint :: string where
  "cdp_endpoint = ''http://localhost:9222''"

definition connect_error_message :: "exn \<Rightarrow> string" where
  "connect_error_message e =
     ''ERROR: Could not connect to Chrome. Make sure it is running with --remote-debugging-port=9222. Error: ''
       @ exn_str e"

text \<open>
  \<^verbatim>\<open>_start\<close>. The driver is started outside the \<^verbatim>\<open>try\<close>: when that raises, nothing is
  assigned and nothing is printed. Inside the \<^verbatim>\<open>try\<close>, every exception is printed and
  raised again unchanged (\<^verbatim>\<open>raise e\<close>). The list \<^verbatim>\<open>self._browser.contexts\<close> is read once
  by the test and, when it is not empty, once more by \<^verbatim>\<open>[0]\<close>; no \<^verbatim>\<open>await\<close> lies between
  the two reads, so both see the same list. Cancellation of the task, which is not an
  \<^verbatim>\<open>Exception\<close> and would pass the handler without the printed line, is not modelled.
\<close>

definition private_start :: "env \<Rightarrow> LocalPlaywrightBrowser \<Rightarrow> outcome" where
  "private_start e self =
     (case async_playwright_start e of
        Inl ex \<Rightarrow> \<lparr> self_after = self, calls = [AsyncPlaywrightStart], raised = Some ex \<rparr>
      | Inr pw \<Rightarrow>
          let self1 = self\<lparr> self_playwright := Some pw \<rparr>;
              log1 = [AsyncPlaywrightStart,
                      Print ''DEBUG: Attempting to connect to existing Chrome instance on port 9222...'',
                      ConnectOverCdp pw cdp_endpoint]
          in (case connect_over_cdp e pw cdp_endpoint of
                Inl ex \<Rightarrow>
                  \<lparr> self_after = self1,
                    calls = log1 @ [Print (connect_error_message ex)],
                    raised = Some ex \<rparr>
              | Inr br \<Rightarrow>
                  let self2 = self1\<lparr> self_browser := Some br \<rparr>;
                      log2 = log1 @ [Contexts br]
                  in (case contexts e br of
                        c # _ \<Rightarrow>
                          \<lparr> self_after = self2\<lparr> self_context := Some c \<rparr>,
                            calls = log2 @ [Contexts br,
                                            Print ''DEBUG: Successfully connected to local Chrome!''],
                            raised = None \<rparr>
                      | [] \<Rightarrow>
                          (case new_context e br of
                             Inl ex \<Rightarrow>
                               \<lparr> self_after = self2,
                                 calls = log2 @ [NewContext br, Print (connect_error_message ex)],
                                 raised = Some ex \<rparr>
                           | Inr c \<Rightarrow>
                               \<lparr> self_after = self2\<lparr> self_context := Some c \<rparr>,
                                 calls = log2 @ [NewContext br,
                                                 Print ''DEBUG: Successfully connected to local Chrome!''],
                                 raised = None \<rparr>))))"

text \<open>
  \<^verbatim>\<open>_close\<close>: \<^verbatim>\<open>if self._playwright: await self._playwright.stop()\<close>. No field is
  assigned.
\<close>

definition private_close :: "env \<Rightarrow> LocalPlaywrightBrowser \<Rightarrow> outcome" where
  "private_close e self =
     (case self_playwright self of
        None \<Rightarrow> \<lparr> self_after = self, calls = [], raised = None \<rparr>
      | Some pw \<Rightarrow>
          \<lparr> self_after = self, calls = [PlaywrightStop pw], raised = playwright_stop e pw \<rparr>)"

text \<open>The property \<^verbatim>\<open>browser_context\<close>.\<close>

definition browser_context :: "LocalPlaywrightBrowser \<Rightarrow> exn + BrowserContext" where
  "browser_context self =
     (case self_context self of
        None \<Rightarrow> Inl (RuntimeError ''Browser context is not initialized. Start the browser first.'')
      | Some c \<Rightarrow> Inr c)"

text \<open>\<^verbatim>\<open>_to_config\<close> and \<^verbatim>\<open>_from_config\<close>.\<close>

definition private_to_config :: "LocalPlaywrightBrowser \<Rightarrow> LocalPlaywrightBrowserConfig" where
  "private_to_config self =
     \<lparr> headless = self_headless self,
       browser_channel = self_browser_channel self,
       enable_downloads = self_enable_downloads self,
       persistent_context = self_persistent_context self,
       browser_data_dir = self_browser_data_dir self \<rparr>"

definition private_from_config :: "LocalPlaywrightBrowserConfig \<Rightarrow> exn + LocalPlaywrightBrowser" where
  "private_from_config config =
     dunder_init (headless config) (browser_channel config) (enable_downloads config)
       (persistent_context config) (browser_data_dir config)"

subsection \<open>Histories of calls on one session\<close>

text \<open>
  A caller drives one object through a sequence of \<^verbatim>\<open>_start\<close> and \<^verbatim>\<open>_close\<close> calls; the
  library may answer each call differently, so each call carries its own environment.
  A raised exception ends that call only: the object stays as the call left it.
\<close>

datatype op = Start env | Close env

fun exec :: "op \<Rightarrow> LocalPlaywrightBrowser \<Rightarrow> outcome" where
  "exec (Start e) self = private_start e self"
| "exec (Close e) self = private_close e self"

fun run :: "op list \<Rightarrow> LocalPlaywrightBrowser \<Rightarrow> LocalPlaywrightBrowser" where
  "run [] self = self"
| "run (x # xs) self = run xs (self_after (exec x self))"

fun run_calls :: "op list \<Rightarrow> LocalPlaywrightBrowser \<Rightarrow> call list" where
  "run_calls [] self = []"
| "run_calls (x # xs) self = calls (exec x self) @ run_calls xs (self_after (exec x self))"

fun is_start :: "op \<Rightarrow> bool" where
  "is_start (Start e) = True"
| "is_start (Close e) = False"

text \<open>Some \<^verbatim>\<open>_start\<close> of the history returned normally.\<close>

fun start_succeeded :: "op list \<Rightarrow> LocalPlaywrightBrowser \<Rightarrow> bool" where
  "start_succeeded [] self = False"
| "start_succeeded (x # xs) self =
     (if is_start x \<and> raised (exec x self) = None then True
      else start_succeeded xs (self_after (exec x self)))"

text \<open>The calls that would end the attached browser or close its context.\<close>

fun terminates :: "call \<Rightarrow> bool" where
  "terminates (BrowserClose b) = True"
| "terminates (ContextClose c) = True"
| "terminates other = False"

fun connect_urls :: "call list \<Rightarrow> string list" where
  "connect_urls [] = []"
| "connect_urls (ConnectOverCdp pw url # cs) = url # connect_urls cs"
| "connect_urls (c # cs) = connect_urls cs"

text \<open>The three handles of a session, the part of the object that \<^verbatim>\<open>_start\<close> assigns.\<close>

definition handles ::
  "LocalPlaywrightBrowser \<Rightarrow> Playwright option \<times> Browser option \<times> BrowserContext option" where
  "handles self = (self_playwright self, self_browser self, self_context self)"

subsection \<open>Concrete sessions and environments\<close>

text \<open>The object \<^verbatim>\<open>LocalPlaywrightBrowser()\<close> builds with every argument at its default.\<close>

definition session0 :: LocalPlaywrightBrowser where
  "session0 =
     \<lparr> self_headless = False, self_browser_channel = None, self_enable_downloads = False,
       self_persistent_context = False, self_browser_data_dir = None,
       self_playwright = None, self_browser = None, self_context = None \<rparr>"

text \<open>
  A Chrome that listens on port 9222 and already has two contexts; the driver starts and
  stops without an exception.
\<close>

definition env_ok :: env where
  "env_ok =
     \<lparr> async_playwright_start = Inr (Playwright 1),
       connect_over_cdp = (\<lambda>pw url.
          if url = ''http://localhost:9222'' then Inr (Browser 2)
          else Inl (PlaywrightError ''connect ECONNREFUSED'')),
       contexts = (\<lambda>br. [BrowserContext 3, BrowserContext 5]),
       new_context = (\<lambda>br. Inr (BrowserContext 4)),
       playwright_stop = (\<lambda>pw. None) \<rparr>"

text \<open>A Chrome on port 9222 that has no context yet; a new one can be created.\<close>

definition env_no_context :: env where
  "env_no_context =
     \<lparr> async_playwright_start = Inr (Playwright 6),
       connect_over_cdp = (\<lambda>pw url.
          if url = ''http://localhost:9222'' then Inr (Browser 7)
          else Inl (PlaywrightError ''connect ECONNREFUSED'')),
       contexts = (\<lambda>br. []),
       new_context = (\<lambda>br. Inr (BrowserContext 9)),
       playwright_stop = (\<lambda>pw. None) \<rparr>"

text \<open>No Chrome listens on port 9222: the driver starts, the connection is refused.\<close>

definition env_refused :: env where
  "env_refused =
     \<lparr> async_playwright_start = Inr (Playwright 8),
       connect_over_cdp = (\<lambda>pw url. Inl (PlaywrightError ''connect ECONNREFUSED'')),
       contexts = (\<lambda>br. []),
       new_context = (\<lambda>br. Inl (PlaywrightError ''Target closed'')),
       playwright_stop = (\<lambda>pw. None) \<rparr>"


text \<open>A configuration that asks for a persistent context and names no data directory.\<close>

definition config_persistent_no_dir :: LocalPlaywrightBrowserConfig where
  "config_persistent_no_dir =
     \<lparr> headless = False, browser_channel = None, enable_downloads = False,
       persistent_context = True, browser_data_dir = None \<rparr>"

text \<open>Two configurations that differ in every field.\<close>

definition config_a :: LocalPlaywrightBrowserConfig where
  "config_a =
     \<lparr> headless = True, browser_channel = None, enable_downloads = False,
       persistent_context = False, browser_data_dir = None \<rparr>"

definition config_b :: LocalPlaywrightBrowserConfig where
  "config_b =
     \<lparr> headless = False, browser_channel = Some ''chrome'', enable_downloads = True,
       persistent_context = True, browser_data_dir = Some ''./browser_data'' \<rparr>"

text \<open>The objects \<^verbatim>\<open>_from_config\<close> builds from the two configurations.\<close>

definition session_a :: LocalPlaywrightBrowser where
  "session_a =
     \<lparr> self_headless = True, self_browser_channel = None, self_enable_downloads = False,
       self_persistent_context = False, self_browser_data_dir = None,
       self_playwright = None, self_browser = None, self_context = None \<rparr>"

definition session_b :: LocalPlaywrightBrowser where
  "session_b =
     \<lparr> self_headless = False, self_browser_channel = Some ''chrome'', self_enable_downloads = True,
       self_persistent_context = True, self_browser_data_dir = Some ''./browser_data'',
       self_playwright = None, self_browser = None, self_context = None \<rparr>"

section \<open>Properties\<close>

subsection \<open>What one call does to the handles\<close>

lemma private_close_self_after: "self_after (private_close e self) = self"
  by (simp add: private_close_def split: option.splits)

lemma private_start_success_context:
  "raised (private_start e self) = None \<Longrightarrow> self_context (self_after (private_start e self)) \<noteq> None"
  by (auto simp: private_start_def Let_def split: sum.splits list.splits)

lemma private_start_failure_context:
  "raised (private_start e self) \<noteq> None \<Longrightarrow>
     self_context (self_after (private_start e self)) = self_context self"
  by (auto simp: private_start_def Let_def split: sum.splits list.splits)

lemma exec_keeps_context:
  "self_context self \<noteq> None \<Longrightarrow> self_context (self_after (exec x self)) \<noteq> None"
  by (cases x) (auto simp: private_start_def private_close_def Let_def split: sum.splits list.splits option.splits)

lemma run_keeps_context:
  "self_context self \<noteq> None \<Longrightarrow> self_context (run ops self) \<noteq> None"
proof (induction ops arbitrary: self)
  case Nil
  then show ?case by simp
next
  case (Cons x xs)
  from Cons.prems have "self_context (self_after (exec x self)) \<noteq> None"
    by (rule exec_keeps_context)
  then have "self_context (run xs (self_after (exec x self))) \<noteq> None"
    by (rule Cons.IH)
  then show ?case by simp
qed

lemma run_context_None_iff:
  "self_context self = None \<Longrightarrow>
     (self_context (run ops self) = None) = (\<not> start_succeeded ops self)"
proof (induction ops arbitrary: self)
  case Nil
  then show ?case by simp
next
  case (Cons x xs)
  show ?case
  proof (cases x)
    case (Start e)
    show ?thesis
    proof (cases "raised (private_start e self) = None")
      case True
      then have "self_context (self_after (private_start e self)) \<noteq> None"
        by (rule private_start_success_context)
      then have "self_context (run xs (self_after (private_start e self))) \<noteq> None"
        by (rule run_keeps_context)
      with True Start show ?thesis by simp
    next
      case False
      then have "self_context (self_after (private_start e self)) = None"
        using Cons.prems by (simp add: private_start_failure_context)
      from Cons.IH [OF this] False Start show ?thesis by (simp del: not_None_eq)
    qed
  next
    case (Close e)
    have "self_after (private_close e self) = self"
      by (rule private_close_self_after)
    with Cons.IH [OF Cons.prems] Close show ?thesis by simp
  qed
qed

lemma terminates_private_start: "filter terminates (calls (private_start e self)) = []"
  by (auto simp: private_start_def Let_def split: sum.splits list.splits)

lemma terminates_private_close: "filter terminates (calls (private_close e self)) = []"
  by (auto simp: private_close_def split: option.splits)

lemma run_calls_never_terminate: "filter terminates (run_calls ops self) = []"
proof (induction ops arbitrary: self)
  case Nil
  show ?case by simp
next
  case (Cons x xs)
  have "filter terminates (calls (exec x self)) = []"
    by (cases x) (simp_all add: terminates_private_start terminates_private_close)
  with Cons show ?case by simp
qed

subsection \<open>Two sessions with the same handles; the configuration fields\<close>

lemma private_start_independent:
  "calls (private_start e self) = calls (private_start e self') \<and>
   raised (private_start e self) = raised (private_start e self')"
  by (simp add: private_start_def Let_def split: sum.splits list.splits)

lemma private_start_handles_cong:
  "handles self = handles self' \<Longrightarrow>
     handles (self_after (private_start e self)) = handles (self_after (private_start e self'))"
  by (simp add: private_start_def handles_def Let_def split: sum.splits list.splits)

lemma exec_handles_cong:
  "handles self = handles self' \<Longrightarrow>
     handles (self_after (exec x self)) = handles (self_after (exec x self'))"
proof (cases x)
  case (Start e)
  assume "handles self = handles self'"
  then have "handles (self_after (private_start e self)) = handles (self_after (private_start e self'))"
    by (rule private_start_handles_cong)
  with Start show ?thesis by simp
next
  case (Close e)
  assume "handles self = handles self'"
  with Close show ?thesis by (simp add: private_close_self_after)
qed

lemma run_handles_cong:
  "handles self = handles self' \<Longrightarrow> handles (run ops self) = handles (run ops self')"
proof (induction ops arbitrary: self self')
  case Nil
  then show ?case by simp
next
  case (Cons x xs)
  from Cons.prems have "handles (self_after (exec x self)) = handles (self_after (exec x self'))"
    by (rule exec_handles_cong)
  then have "handles (run xs (self_after (exec x self))) = handles (run xs (self_after (exec x self')))"
    by (rule Cons.IH)
  then show ?case by simp
qed

lemma private_start_config:
  "private_to_config (self_after (private_start e self)) = private_to_config self"
  by (simp add: private_start_def private_to_config_def Let_def split: sum.splits list.splits)

lemma exec_config: "private_to_config (self_after (exec x self)) = private_to_config self"
  by (cases x) (simp_all add: private_start_config private_close_self_after)

lemma run_config: "private_to_config (run ops self) = private_to_config self"
  by (induction ops arbitrary: self) (simp_all add: exec_config)

lemma connect_urls_private_start:
  "connect_urls (calls (private_start e self)) =
     (case async_playwright_start e of Inl ex \<Rightarrow> [] | Inr pw \<Rightarrow> [cdp_endpoint])"
  by (simp add: private_start_def Let_def split: sum.splits list.splits)



lemma private_start_calls_prefix:
  "take 3 (calls (private_start e self)) =
     (case async_playwright_start e of
        Inl ex \<Rightarrow> [AsyncPlaywrightStart]
      | Inr pw \<Rightarrow> [AsyncPlaywrightStart, Print ''DEBUG: Attempting to connect to existing Chrome instance on port 9222...'', ConnectOverCdp pw ''http://localhost:9222''])"
  by (simp add: private_start_def cdp_endpoint_def Let_def split: sum.splits list.splits)

lemma private_start_raised:
  "raised (private_start e self) =
         (case async_playwright_start e of
            Inl ex \<Rightarrow> Some ex
          | Inr pw \<Rightarrow>
              (case connect_over_cdp e pw ''http://localhost:9222'' of
                 Inl ex \<Rightarrow> Some ex
               | Inr br \<Rightarrow>
                   (case contexts e br of
                      c # cs \<Rightarrow> None
                    | [] \<Rightarrow> (case new_context e br of Inl ex \<Rightarrow> Some ex | Inr c \<Rightarrow> None))))"
  by (simp add: private_start_def cdp_endpoint_def Let_def split: sum.splits list.splits)

lemma private_start_selected:
  "raised (private_start e self) = None \<Longrightarrow>
     \<exists>pw br c.
         async_playwright_start e = Inr pw
       \<and> connect_over_cdp e pw cdp_endpoint = Inr br
       \<and> (if contexts e br \<noteq> [] then c = hd (contexts e br) else new_context e br = Inr c)
       \<and> self_playwright (self_after (private_start e self)) = Some pw
       \<and> self_browser (self_after (private_start e self)) = Some br
       \<and> browser_context (self_after (private_start e self)) = Inr c"
  by (auto simp: private_start_def browser_context_def Let_def split: sum.splits list.splits)

subsection \<open>The claims\<close>

text \<open>
  C1. Closing a session stops the Playwright driver and does nothing else: the only
  library call \<^verbatim>\<open>_close\<close> makes is the driver's \<^verbatim>\<open>stop()\<close> (and none when no driver was
  acquired), no call closes the attached browser or its context, and the object, with its
  browser and context handles, is left as it was. This holds for every session object
  and every answer of the library.
\<close>

theorem close_stops_driver_only:
  "calls (private_close e self) =
     (case self_playwright self of None \<Rightarrow> [] | Some pw \<Rightarrow> [PlaywrightStop pw])
   \<and> filter terminates (calls (private_close e self)) = []
   \<and> self_after (private_close e self) = self"
  by (simp add: private_close_def split: option.splits)

text \<open>
  C8. The derived property \<^verbatim>\<open>requires_persistent_context\<close> is true exactly when
  \<^verbatim>\<open>persistent_context\<close> is true and \<^verbatim>\<open>browser_data_dir\<close> is present; with
  \<^verbatim>\<open>persistent_context\<close> true and \<^verbatim>\<open>browser_data_dir\<close> absent it is false.
\<close>

theorem requires_persistent_context_iff:
  "requires_persistent_context c = (persistent_context c \<and> browser_data_dir c \<noteq> None)
   \<and> requires_persistent_context (c\<lparr> persistent_context := True, browser_data_dir := None \<rparr>) = False"
  by (simp add: requires_persistent_context_def)

text \<open>
  C10. Configuration round trip: \<^verbatim>\<open>_from_config\<close> builds an object from every
  configuration, and \<^verbatim>\<open>_to_config\<close> of that object is the configuration again, all five
  fields unchanged.
\<close>

theorem config_round_trip:
  "\<exists>b. private_from_config c = Inr b \<and> private_to_config b = c"
  by (simp add: private_from_config_def dunder_init_def private_to_config_def)

text \<open>
  C2 (as amended). The accessor \<^verbatim>\<open>browser_context\<close> raises the not-started error
  (\<^verbatim>\<open>RuntimeError\<close>) exactly as long as no \<^verbatim>\<open>_start\<close> of the session has returned
  normally, whatever calls were made before; once a start has succeeded it returns a
  context handle. \<^verbatim>\<open>_close\<close> does not clear the handle: the accessor answers after a
  close what it answered before it.
\<close>

theorem accessor_fails_until_start_succeeds:
  assumes "dunder_init h ch d p dd = Inr self"
  shows "(browser_context (run ops self) =
            Inl (RuntimeError ''Browser context is not initialized. Start the browser first.''))
          = (\<not> start_succeeded ops self)
       \<and> (start_succeeded ops self \<longrightarrow> (\<exists>c. browser_context (run ops self) = Inr c))
       \<and> browser_context (self_after (private_close e (run ops self))) = browser_context (run ops self)"
proof -
  from assms have "self_context self = None"
    by (auto simp: dunder_init_def)
  then have iff: "(self_context (run ops self) = None) = (\<not> start_succeeded ops self)"
    by (rule run_context_None_iff)
  have acc: "(browser_context b =
            Inl (RuntimeError ''Browser context is not initialized. Start the browser first.''))
         = (self_context b = None)" for b
    by (simp add: browser_context_def split: option.splits)
  have ret: "self_context b \<noteq> None \<Longrightarrow> \<exists>c. browser_context b = Inr c" for b
    by (auto simp: browser_context_def)
  show ?thesis
    using iff acc [of "run ops self"] ret [of "run ops self"]
    by (simp add: private_close_self_after del: not_None_eq)
qed

text \<open>
  At a fresh session: after a refused attach and a close the accessor raises; after a
  successful start and a close it returns the context of that start.
\<close>

theorem accessor_fails_until_start_succeeds_witness:
  "dunder_init False None False False None = Inr session0
   \<and> \<not> start_succeeded [Start env_refused, Close env_ok] session0
   \<and> browser_context (run [Start env_refused, Close env_ok] session0) =
        Inl (RuntimeError ''Browser context is not initialized. Start the browser first.'')
   \<and> start_succeeded [Start env_ok, Close env_ok] session0
   \<and> browser_context (run [Start env_ok, Close env_ok] session0) = Inr (BrowserContext 3)
   \<and> browser_context (self_after (private_close env_ok (run [Start env_ok, Close env_ok] session0)))
        = Inr (BrowserContext 3)"
proof -
  have init: "dunder_init False None False False None = Inr session0"
    by (simp add: dunder_init_def session0_def)
  have no: "\<not> start_succeeded [Start env_refused, Close env_ok] session0"
    by (simp add: env_refused_def env_ok_def session0_def private_start_def private_close_def
        cdp_endpoint_def)
  have yes: "start_succeeded [Start env_ok, Close env_ok] session0"
    by (simp add: env_ok_def session0_def private_start_def private_close_def cdp_endpoint_def)
  have c: "browser_context (run [Start env_ok, Close env_ok] session0) = Inr (BrowserContext 3)"
    by (simp add: env_ok_def session0_def private_start_def private_close_def cdp_endpoint_def
        browser_context_def)
  from accessor_fails_until_start_succeeds [OF init, of "[Start env_refused, Close env_ok]" env_ok]
    accessor_fails_until_start_succeeds [OF init, of "[Start env_ok, Close env_ok]" env_ok] init no yes c
  show ?thesis by simp
qed

text \<open>
  The claim as stated fails: start, then close, and the accessor still returns the
  context handle that start selected.
\<close>

theorem accessor_after_close_counterexample:
  "dunder_init False None False False None = Inr session0
   \<and> raised (private_start env_ok session0) = None
   \<and> raised (private_close env_ok (self_after (private_start env_ok session0))) = None
   \<and> browser_context (run [Start env_ok, Close env_ok] session0) = Inr (BrowserContext 3)"
  by (simp add: dunder_init_def session0_def env_ok_def private_start_def private_close_def
      browser_context_def cdp_endpoint_def)

text \<open>
  C3 (as amended). Construction validates nothing: for every choice of the five
  arguments, also \<^verbatim>\<open>persistent_context=True\<close> with \<^verbatim>\<open>browser_data_dir\<close> absent or empty,
  \<^verbatim>\<open>__init__\<close> returns an object that stores the arguments as given and has no handle
  set. With the directory absent the derived property \<^verbatim>\<open>requires_persistent_context\<close>
  is false; with the empty string it is true.
\<close>

theorem construction_accepts_every_configuration:
  "(\<exists>b. dunder_init h ch d p dd = Inr b
        \<and> private_to_config b =
            \<lparr> headless = h, browser_channel = ch, enable_downloads = d,
              persistent_context = p, browser_data_dir = dd \<rparr>
        \<and> handles b = (None, None, None))
   \<and> requires_persistent_context
        \<lparr> headless = h, browser_channel = ch, enable_downloads = d,
          persistent_context = True, browser_data_dir = None \<rparr> = False
   \<and> requires_persistent_context
        \<lparr> headless = h, browser_channel = ch, enable_downloads = d,
          persistent_context = True, browser_data_dir = Some [] \<rparr> = True"
  by (simp add: dunder_init_def private_to_config_def handles_def requires_persistent_context_def)

text \<open>
  The claim as stated fails: a configuration with \<^verbatim>\<open>persistent_context\<close> true and no
  data directory is accepted.
\<close>

theorem construction_persistent_without_dir_counterexample:
  "persistent_context config_persistent_no_dir
   \<and> browser_data_dir config_persistent_no_dir = None
   \<and> private_from_config config_persistent_no_dir =
       Inr \<lparr> self_headless = False, self_browser_channel = None, self_enable_downloads = False,
             self_persistent_context = True, self_browser_data_dir = None,
             self_playwright = None, self_browser = None, self_context = None \<rparr>"
  by (simp add: config_persistent_no_dir_def private_from_config_def dunder_init_def)

text \<open>
  C4 (as amended). \<^verbatim>\<open>_start\<close> has no phase check: what it raises and the library calls
  it makes are the same on every session object, started or not, so a second start begins
  with a new driver and, once it has one, attaches to the endpoint again like a first
  start. It raises only what the library raised, never an error of its own, and it never
  closes a browser or a context. When the second start raises, the
  accessor answers as before it (the first session's context); when it returns normally,
  the driver and browser handles are those of the second attach and the accessor returns
  the context the second attach selected: the first context of the newly attached browser,
  or the new context created on it when it has none.
\<close>

theorem second_start_runs_like_first:
  "raised (private_start e self) = raised (private_start e self')
   \<and> calls (private_start e self) = calls (private_start e self')
   \<and> raised (private_start e self) =
         (case async_playwright_start e of
            Inl ex \<Rightarrow> Some ex
          | Inr pw \<Rightarrow>
              (case connect_over_cdp e pw ''http://localhost:9222'' of
                 Inl ex \<Rightarrow> Some ex
               | Inr br \<Rightarrow>
                   (case contexts e br of
                      c # cs \<Rightarrow> None
                    | [] \<Rightarrow> (case new_context e br of Inl ex \<Rightarrow> Some ex | Inr c \<Rightarrow> None))))
   \<and> take 3 (calls (private_start e self)) =
         (case async_playwright_start e of
            Inl ex \<Rightarrow> [AsyncPlaywrightStart]
          | Inr pw \<Rightarrow> [AsyncPlaywrightStart, Print ''DEBUG: Attempting to connect to existing Chrome instance on port 9222...'', ConnectOverCdp pw ''http://localhost:9222''])
   \<and> filter terminates (calls (private_start e self)) = []
   \<and> (raised (private_start e self) \<noteq> None \<longrightarrow>
        browser_context (self_after (private_start e self)) = browser_context self)
   \<and> (raised (private_start e self) = None \<longrightarrow>
        (\<exists>pw br c.
            async_playwright_start e = Inr pw
          \<and> connect_over_cdp e pw ''http://localhost:9222'' = Inr br
          \<and> (if contexts e br \<noteq> [] then c = hd (contexts e br) else new_context e br = Inr c)
          \<and> self_playwright (self_after (private_start e self)) = Some pw
          \<and> self_browser (self_after (private_start e self)) = Some br
          \<and> browser_context (self_after (private_start e self)) = Inr c))"
proof -
  have fail: "raised (private_start e self) \<noteq> None \<Longrightarrow>
      browser_context (self_after (private_start e self)) = browser_context self"
    by (simp add: browser_context_def private_start_failure_context del: not_None_eq)
  have ok: "raised (private_start e self) = None \<Longrightarrow>
      \<exists>pw br c.
            async_playwright_start e = Inr pw
          \<and> connect_over_cdp e pw ''http://localhost:9222'' = Inr br
          \<and> (if contexts e br \<noteq> [] then c = hd (contexts e br) else new_context e br = Inr c)
          \<and> self_playwright (self_after (private_start e self)) = Some pw
          \<and> self_browser (self_after (private_start e self)) = Some br
          \<and> browser_context (self_after (private_start e self)) = Inr c"
    using private_start_selected [of e self] by (simp add: cdp_endpoint_def)
  from fail ok show ?thesis
    using private_start_independent [of e self self'] terminates_private_start [of e self]
      private_start_calls_prefix [of e self] private_start_raised [of e self]
    by blast
qed

text \<open>
  On a started session whose accessor returns context 3: a second start whose attach is
  refused leaves context 3 in the accessor; a second start that attaches to a browser
  without a context returns normally and the accessor returns the new context 9.
\<close>

theorem second_start_runs_like_first_witness:
  "browser_context (self_after (private_start env_ok session0)) = Inr (BrowserContext 3)
   \<and> raised (private_start env_refused (self_after (private_start env_ok session0))) \<noteq> None
   \<and> browser_context (self_after (private_start env_refused (self_after (private_start env_ok session0))))
        = Inr (BrowserContext 3)
   \<and> raised (private_start env_no_context (self_after (private_start env_ok session0))) = None
   \<and> self_playwright (self_after (private_start env_no_context (self_after (private_start env_ok session0))))
        = Some (Playwright 6)
   \<and> self_browser (self_after (private_start env_no_context (self_after (private_start env_ok session0))))
        = Some (Browser 7)
   \<and> browser_context (self_after (private_start env_no_context (self_after (private_start env_ok session0))))
        = Inr (BrowserContext 9)"
proof -
  let ?s1 = "self_after (private_start env_ok session0)"
  have bad: "raised (private_start env_refused ?s1) \<noteq> None"
    by (simp add: private_start_def env_refused_def cdp_endpoint_def)
  have good: "raised (private_start env_no_context ?s1) = None"
    by (simp add: private_start_def env_no_context_def cdp_endpoint_def)
  have first: "browser_context ?s1 = Inr (BrowserContext 3)"
    by (simp add: private_start_def env_ok_def session0_def browser_context_def cdp_endpoint_def)
  have env: "async_playwright_start env_no_context = Inr (Playwright 6)"
    "connect_over_cdp env_no_context (Playwright 6) ''http://localhost:9222'' = Inr (Browser 7)"
    "contexts env_no_context (Browser 7) = []"
    "new_context env_no_context (Browser 7) = Inr (BrowserContext 9)"
    by (simp_all add: env_no_context_def)
  from second_start_runs_like_first [of env_refused ?s1 session0] bad first
  have kept: "browser_context (self_after (private_start env_refused ?s1)) = Inr (BrowserContext 3)"
    by simp
  from second_start_runs_like_first [of env_no_context ?s1 session0] good
  obtain pw br c where sel:
    "async_playwright_start env_no_context = Inr pw"
    "connect_over_cdp env_no_context pw ''http://localhost:9222'' = Inr br"
    "if contexts env_no_context br \<noteq> [] then c = hd (contexts env_no_context br)
     else new_context env_no_context br = Inr c"
    "self_playwright (self_after (private_start env_no_context ?s1)) = Some pw"
    "self_browser (self_after (private_start env_no_context ?s1)) = Some br"
    "browser_context (self_after (private_start env_no_context ?s1)) = Inr c"
    by blast
  from sel(1) env(1) have pw: "pw = Playwright 6" by simp
  from sel(2) env(2) pw have br: "br = Browser 7" by simp
  from sel(3) env(3,4) br have c: "c = BrowserContext 9" by simp
  from first bad kept good sel(4,5,6) pw br c show ?thesis by simp
qed

text \<open>
  The claim as stated fails: the second start on a started session returns normally,
  and the accessor then returns the context of the second attach.
\<close>

theorem second_start_counterexample:
  "raised (private_start env_ok session0) = None
   \<and> browser_context (self_after (private_start env_ok session0)) = Inr (BrowserContext 3)
   \<and> raised (private_start env_no_context (self_after (private_start env_ok session0))) = None
   \<and> browser_context (self_after (private_start env_no_context (self_after (private_start env_ok session0))))
        = Inr (BrowserContext 9)"
  by (simp add: session0_def env_ok_def env_no_context_def private_start_def browser_context_def
      cdp_endpoint_def)

text \<open>
  C5. When \<^verbatim>\<open>_start\<close> returns normally, the driver was started and the attach to the
  endpoint gave a browser; if that browser has a context, the first one is selected and
  no context is created; if it has none, a new context is created on it and selected. In
  both cases the selected context is the one handle stored in the object, and the
  accessor returns it.
\<close>

theorem start_selects_context:
  assumes "raised (private_start e self) = None"
  shows "\<exists>pw br c.
           async_playwright_start e = Inr pw
         \<and> connect_over_cdp e pw cdp_endpoint = Inr br
         \<and> (if contexts e br \<noteq> [] then
               c = hd (contexts e br) \<and> NewContext br \<notin> set (calls (private_start e self))
             else
               new_context e br = Inr c \<and> NewContext br \<in> set (calls (private_start e self)))
         \<and> self_browser (self_after (private_start e self)) = Some br
         \<and> self_context (self_after (private_start e self)) = Some c
         \<and> browser_context (self_after (private_start e self)) = Inr c"
  using assms
  by (auto simp: private_start_def browser_context_def Let_def split: sum.splits list.splits)

text \<open>
  Both branches at a fresh session: a browser with two contexts, and one with none.
\<close>

theorem start_selects_context_witness:
  "raised (private_start env_ok session0) = None
   \<and> browser_context (self_after (private_start env_ok session0)) = Inr (BrowserContext 3)
   \<and> raised (private_start env_no_context session0) = None
   \<and> browser_context (self_after (private_start env_no_context session0)) = Inr (BrowserContext 9)"
proof -
  have a: "raised (private_start env_ok session0) = None"
    by (simp add: private_start_def env_ok_def cdp_endpoint_def)
  have b: "raised (private_start env_no_context session0) = None"
    by (simp add: private_start_def env_no_context_def cdp_endpoint_def)
  from start_selects_context [OF a] start_selects_context [OF b] a b show ?thesis
    by (auto simp: env_ok_def env_no_context_def cdp_endpoint_def)
qed

text \<open>
  C6. When the driver starts and the attach to the endpoint raises, \<^verbatim>\<open>_start\<close> raises
  that same exception to its caller, after one connection attempt to the endpoint and
  one printed line; only the driver handle has been assigned.
\<close>

theorem start_attach_failure_surfaced:
  assumes "async_playwright_start e = Inr pw"
    and "connect_over_cdp e pw cdp_endpoint = Inl ex"
  shows "raised (private_start e self) = Some ex
       \<and> calls (private_start e self) =
           [AsyncPlaywrightStart,
            Print ''DEBUG: Attempting to connect to existing Chrome instance on port 9222...'',
            ConnectOverCdp pw ''http://localhost:9222'',
            Print (connect_error_message ex)]
       \<and> connect_urls (calls (private_start e self)) = [''http://localhost:9222'']
       \<and> self_after (private_start e self) = self\<lparr> self_playwright := Some pw \<rparr>"
  using assms by (simp add: private_start_def cdp_endpoint_def)

text \<open>
  A refused connection at a fresh session.
\<close>

theorem start_attach_failure_surfaced_witness:
  "async_playwright_start env_refused = Inr (Playwright 8)
   \<and> connect_over_cdp env_refused (Playwright 8) cdp_endpoint = Inl (PlaywrightError ''connect ECONNREFUSED'')
   \<and> raised (private_start env_refused session0) = Some (PlaywrightError ''connect ECONNREFUSED'')
   \<and> connect_urls (calls (private_start env_refused session0)) = [''http://localhost:9222'']"
proof -
  have a: "async_playwright_start env_refused = Inr (Playwright 8)"
    by (simp add: env_refused_def)
  have b: "connect_over_cdp env_refused (Playwright 8) cdp_endpoint
             = Inl (PlaywrightError ''connect ECONNREFUSED'')"
    by (simp add: env_refused_def)
  from start_attach_failure_surfaced [OF a b, of session0] a b show ?thesis by simp
qed




text \<open>
  C9. Two sessions built from any two configurations and driven through the same
  history of calls start identically: the same library calls in the same order, the same
  exception or normal return, the same handles afterwards. The start begins with the
  driver and, once it has one, makes exactly one connection attempt, to
  \<^verbatim>\<open>http://localhost:9222\<close>. When it returns normally, both sessions hold the context the
  same selection gives: the first context of the attached browser, or the new one created
  on it when it has none. Each object keeps its own configuration.
\<close>

theorem start_ignores_configuration:
  assumes "private_from_config c1 = Inr b1" and "private_from_config c2 = Inr b2"
  shows "calls (private_start e (run ops b1)) = calls (private_start e (run ops b2))
       \<and> raised (private_start e (run ops b1)) = raised (private_start e (run ops b2))
       \<and> handles (self_after (private_start e (run ops b1)))
           = handles (self_after (private_start e (run ops b2)))
       \<and> set (connect_urls (calls (private_start e (run ops b1)))) \<subseteq> {''http://localhost:9222''}
       \<and> private_to_config (self_after (private_start e (run ops b1))) = c1
       \<and> private_to_config (self_after (private_start e (run ops b2))) = c2
       \<and> take 3 (calls (private_start e (run ops b1))) =
           (case async_playwright_start e of
              Inl ex \<Rightarrow> [AsyncPlaywrightStart]
            | Inr pw \<Rightarrow> [AsyncPlaywrightStart, Print ''DEBUG: Attempting to connect to existing Chrome instance on port 9222...'', ConnectOverCdp pw ''http://localhost:9222''])
       \<and> connect_urls (calls (private_start e (run ops b1))) =
           (case async_playwright_start e of Inl ex \<Rightarrow> [] | Inr pw \<Rightarrow> [''http://localhost:9222''])
       \<and> (raised (private_start e (run ops b1)) = None \<longrightarrow>
            (\<exists>pw br c.
                async_playwright_start e = Inr pw
              \<and> connect_over_cdp e pw ''http://localhost:9222'' = Inr br
              \<and> (if contexts e br \<noteq> [] then c = hd (contexts e br) else new_context e br = Inr c)
              \<and> handles (self_after (private_start e (run ops b1))) = (Some pw, Some br, Some c)
              \<and> handles (self_after (private_start e (run ops b2))) = (Some pw, Some br, Some c)))"
proof -
  from assms have h: "handles b1 = handles b2"
    by (auto simp: private_from_config_def dunder_init_def handles_def)
  then have "handles (run ops b1) = handles (run ops b2)"
    by (rule run_handles_cong)
  then have hs: "handles (self_after (private_start e (run ops b1)))
           = handles (self_after (private_start e (run ops b2)))"
    by (rule private_start_handles_cong)
  from assms have cfg: "private_to_config b1 = c1" "private_to_config b2 = c2"
    by (auto simp: private_from_config_def dunder_init_def private_to_config_def)
  have urls: "set (connect_urls (calls (private_start e (run ops b1)))) \<subseteq> {''http://localhost:9222''}"
    by (cases "async_playwright_start e") (simp_all add: connect_urls_private_start cdp_endpoint_def)
  have urls2: "connect_urls (calls (private_start e (run ops b1))) =
           (case async_playwright_start e of Inl ex \<Rightarrow> [] | Inr pw \<Rightarrow> [''http://localhost:9222''])"
    by (cases "async_playwright_start e") (simp_all add: connect_urls_private_start cdp_endpoint_def)
  have sel: "raised (private_start e (run ops b1)) = None \<Longrightarrow>
            \<exists>pw br c.
                async_playwright_start e = Inr pw
              \<and> connect_over_cdp e pw ''http://localhost:9222'' = Inr br
              \<and> (if contexts e br \<noteq> [] then c = hd (contexts e br) else new_context e br = Inr c)
              \<and> handles (self_after (private_start e (run ops b1))) = (Some pw, Some br, Some c)"
    by (auto simp: private_start_def handles_def cdp_endpoint_def Let_def
        split: sum.splits list.splits)
  from hs cfg urls urls2 sel private_start_independent [of e "run ops b1" "run ops b2"]
    private_start_calls_prefix [of e "run ops b1"]
  show ?thesis by (simp add: private_start_config run_config)
qed

text \<open>
  The two configurations \<open>config_a\<close> and \<open>config_b\<close>, which differ in every field, after a
  refused start and a close: both sessions then start the driver, attach to the endpoint
  and select context 3.
\<close>

theorem start_ignores_configuration_witness:
  "private_from_config config_a = Inr session_a
   \<and> private_from_config config_b = Inr session_b
   \<and> raised (private_start env_ok (run [Start env_refused, Close env_ok] session_a)) = None
   \<and> calls (private_start env_ok (run [Start env_refused, Close env_ok] session_a))
        = calls (private_start env_ok (run [Start env_refused, Close env_ok] session_b))
   \<and> take 3 (calls (private_start env_ok (run [Start env_refused, Close env_ok] session_a)))
        = [AsyncPlaywrightStart, Print ''DEBUG: Attempting to connect to existing Chrome instance on port 9222...'', ConnectOverCdp (Playwright 1) ''http://localhost:9222'']
   \<and> handles (self_after (private_start env_ok (run [Start env_refused, Close env_ok] session_a)))
        = (Some (Playwright 1), Some (Browser 2), Some (BrowserContext 3))
   \<and> handles (self_after (private_start env_ok (run [Start env_refused, Close env_ok] session_b)))
        = (Some (Playwright 1), Some (Browser 2), Some (BrowserContext 3))
   \<and> private_to_config (self_after (private_start env_ok (run [Start env_refused, Close env_ok] session_a)))
        = config_a
   \<and> private_to_config (self_after (private_start env_ok (run [Start env_refused, Close env_ok] session_b)))
        = config_b"
proof -
  let ?ops = "[Start env_refused, Close env_ok]"
  have a: "private_from_config config_a = Inr session_a"
    by (simp add: private_from_config_def dunder_init_def config_a_def session_a_def)
  have b: "private_from_config config_b = Inr session_b"
    by (simp add: private_from_config_def dunder_init_def config_b_def session_b_def)
  have ok: "raised (private_start env_ok (run ?ops session_a)) = None"
    by (simp add: private_start_def env_ok_def cdp_endpoint_def)
  have env: "async_playwright_start env_ok = Inr (Playwright 1)"
    "connect_over_cdp env_ok (Playwright 1) ''http://localhost:9222'' = Inr (Browser 2)"
    "contexts env_ok (Browser 2) = [BrowserContext 3, BrowserContext 5]"
    by (simp_all add: env_ok_def)
  note inst = start_ignores_configuration [OF a b, of env_ok ?ops]
  note same = inst [THEN conjunct1]
  note r3 = inst [THEN conjunct2, THEN conjunct2, THEN conjunct2]
  note cfg_a = r3 [THEN conjunct2, THEN conjunct1]
  note r6 = r3 [THEN conjunct2, THEN conjunct2]
  note cfg_b = r6 [THEN conjunct1]
  note pre0 = r6 [THEN conjunct2, THEN conjunct1]
  note sel0 = r6 [THEN conjunct2, THEN conjunct2, THEN conjunct2, THEN mp, OF ok]
  from sel0 obtain pw br c where sel:
    "async_playwright_start env_ok = Inr pw"
    "connect_over_cdp env_ok pw ''http://localhost:9222'' = Inr br"
    "if contexts env_ok br \<noteq> [] then c = hd (contexts env_ok br) else new_context env_ok br = Inr c"
    "handles (self_after (private_start env_ok (run ?ops session_a))) = (Some pw, Some br, Some c)"
    "handles (self_after (private_start env_ok (run ?ops session_b))) = (Some pw, Some br, Some c)"
    by (elim exE conjE)
  from sel(1) env(1) have pw: "pw = Playwright 1" by simp
  from sel(2) env(2) pw have br: "br = Browser 2" by simp
  from sel(3) env(3) br have c: "c = BrowserContext 3" by simp
  from pre0 have pre: "take 3 (calls (private_start env_ok (run ?ops session_a)))
        = [AsyncPlaywrightStart, Print ''DEBUG: Attempting to connect to existing Chrome instance on port 9222...'', ConnectOverCdp (Playwright 1) ''http://localhost:9222'']"
    by (simp only: env(1) sum.case)
  from sel(4,5) pw br c have hs:
    "handles (self_after (private_start env_ok (run ?ops session_a)))
       = (Some (Playwright 1), Some (Browser 2), Some (BrowserContext 3))"
    "handles (self_after (private_start env_ok (run ?ops session_b)))
       = (Some (Playwright 1), Some (Browser 2), Some (BrowserContext 3))"
    by simp_all
  show ?thesis
    by (intro conjI) (rule a b ok same pre hs cfg_a cfg_b)+
qed

end
